theory Spec2Isabelle
  imports Main "HOL-Library.AList"
begin

section \<open>Data model of the Sussuros peer session manager\<close>

text \<open>
  The class \<open>Sussuros\<close> (SussurosClass.js) keeps five JavaScript \<open>Map\<close>s keyed by the
  remote user id. A \<open>Map\<close> iterates in insertion order, \<open>set\<close> on an existing key
  keeps its position and \<open>delete\<close> removes the key: an association list with
  \<open>AList.update\<close>, \<open>AList.delete\<close> and \<open>map_of\<close>.

  Transport handles (SimplePeer objects) and MediaStreams are objects shared by
  reference, so they live in two stores addressed by a number; the tables hold the
  addresses. Everything outside the class that the methods read or write (settings,
  the built-in A/V client, the socket, the log, notifications) is a field of the
  same state record.
\<close>

text \<open>
  A user id as the methods receive it and as the \<open>Map\<close>s key it. Foundry's ids are
  strings, and so is every id that arrives through the socket or the context menu.
  The render handler reads the id with jQuery's \<open>data\<close>, which turns an attribute
  that looks like a number into a number; \<open>===\<close> and \<open>Map\<close> keep a number apart from
  every string. The field \<open>me\<close> of the state is \<open>game.user.id\<close>, a string.
\<close>

datatype uid = Str string | NumId nat

type_synonym payload = string
type_synonym hid = nat
type_synonym sid = nat

text \<open>A MediaStreamTrack: its \<open>enabled\<close> flag and whether \<open>stop()\<close> was called on it.\<close>

record track =
  enabled :: bool
  ended :: bool

text \<open>
  Modelled from the spec: the SimplePeer transport (simplepeer.min.js), a black box
  that the class constructs with an \<open>initiator\<close> flag, feeds signalling payloads,
  attaches streams to, sends data through and destroys, and whose \<open>connected\<close>
  property the class reads. \<open>owner\<close> is the user id captured by the callbacks that
  \<open>setupPeer\<close> registers on the handle.
\<close>

record peer =
  initiator :: bool
  owner :: uid
  connected :: bool
  destroyed :: bool
  signalled :: "payload list"
  attached :: "sid list"
  sent :: "payload list"

datatype css = PeerConnected | StreamConnected | StreamBroadcasting | StreamReceiving

record audio_el =
  srcObject :: "sid option"

datatype level = Debug | Info | Warn | Error

text \<open>A message on the socket namespace \<open>module.sussuros\<close>: action, addressee, payload.\<close>

datatype request =
    PeerSignal uid payload
  | PeerClose uid
  | PeerBroadcasting uid bool
  | UnknownAction string

text \<open>
  The built-in A/V client \<open>game.webrtc.client\<close>: \<open>toggleBroadcast\<close> is called through
  \<open>?.\<close> inside a \<open>try\<close>, so it may be missing, may set the channel's broadcast switch,
  or may throw; the property \<open>broadcasting\<close> is read only when it is a boolean.
\<close>

datatype toggle_impl = NoToggle | ToggleSets | ToggleThrows

record av_client =
  isVoiceAlways :: bool
  exposesBroadcasting :: bool
  broadcasting :: bool
  toggle :: toggle_impl

record sussuros =
  peers :: "(uid \<times> hid) list"
  audioElements :: "(uid \<times> audio_el) list"
  remoteStreams :: "(uid \<times> sid) list"
  localStreams :: "(uid \<times> sid) list"
  talkieButtons :: "(uid \<times> css set) list"
  savedAvEnabledState :: bool
  savedMutedFlag :: "bool option"
  savedBroadcasting :: "bool option"
  transports :: "hid \<Rightarrow> peer"
  nextTransport :: hid
  streams :: "sid \<Rightarrow> track list"
  nextStream :: sid
  me :: uid
  settingToggleBroadcast :: bool
  settingDisableAvClient :: bool
  audioSrc :: string
  muted :: bool
  avClient :: "av_client option"
  emitted :: "request list"
  logs :: "(level \<times> string) list"
  notifications :: "string list"
  renders :: nat
  pendingCaptures :: "uid list"
  sinkIdSupported :: bool
  pendingSinks :: "uid list"

text \<open>
  A method either returns or throws; in both cases the mutations made so far stay.
  The only throws modelled are the ones the class itself causes by calling a method
  on the \<open>undefined\<close> that \<open>Map.get\<close> returns for a missing key, and a throwing
  \<open>toggleBroadcast\<close>.
\<close>

datatype outcome = Done sussuros | Threw string sussuros

fun state_of :: "outcome \<Rightarrow> sussuros" where
  "state_of (Done s) = s"
| "state_of (Threw e s) = s"

fun returned :: "outcome \<Rightarrow> bool" where
  "returned (Done s) = True"
| "returned (Threw e s) = False"

fun andThen :: "outcome \<Rightarrow> (sussuros \<Rightarrow> outcome) \<Rightarrow> outcome" where
  "andThen (Done s) f = f s"
| "andThen (Threw e s) f = Threw e s"

text \<open>
  The field \<open>logs\<close> records every call of \<open>log.debug\<close>, \<open>log.info\<close>, \<open>log.warn\<close> and
  \<open>log.error\<close> with its first string, whether or not \<open>setDebug\<close> lets the console
  show it; \<open>emitted\<close> records every \<open>game.socket.emit\<close>.
\<close>

definition logMsg :: "level \<Rightarrow> string \<Rightarrow> sussuros \<Rightarrow> sussuros" where
  "logMsg l m s = s\<lparr>logs := logs s @ [(l, m)]\<rparr>"

definition emit :: "request \<Rightarrow> sussuros \<Rightarrow> sussuros" where
  "emit r s = s\<lparr>emitted := emitted s @ [r]\<rparr>"

definition undefinedError :: string where
  "undefinedError = ''TypeError: Cannot read properties of undefined''"

text \<open>The constructor.\<close>

definition newSussuros :: "uid \<Rightarrow> sussuros" where
  "newSussuros local =
     \<lparr>peers = [], audioElements = [], remoteStreams = [], localStreams = [],
      talkieButtons = [], savedAvEnabledState = False,
      savedMutedFlag = None, savedBroadcasting = None,
      transports = (\<lambda>h. \<lparr>initiator = False, owner = Str [], connected = False,
                           destroyed = False, signalled = [], attached = [], sent = []\<rparr>),
      nextTransport = 0, streams = (\<lambda>i. []), nextStream = 0,
      me = local, settingToggleBroadcast = False, settingDisableAvClient = True,
      audioSrc = ''default'', muted = False, avClient = None,
      emitted = [], logs = [], notifications = [], renders = 0, pendingCaptures = [],
      sinkIdSupported = True, pendingSinks = []\<rparr>"

section \<open>Operations on buttons, tracks and transports\<close>

definition addClass :: "uid \<Rightarrow> css \<Rightarrow> sussuros \<Rightarrow> outcome" where
  "addClass userId c s =
     (case map_of (talkieButtons s) userId of
        None \<Rightarrow> Threw undefinedError s
      | Some b \<Rightarrow> Done (s\<lparr>talkieButtons := AList.update userId (insert c b) (talkieButtons s)\<rparr>))"

definition removeClass :: "uid \<Rightarrow> css \<Rightarrow> sussuros \<Rightarrow> outcome" where
  "removeClass userId c s =
     (case map_of (talkieButtons s) userId of
        None \<Rightarrow> Threw undefinedError s
      | Some b \<Rightarrow> Done (s\<lparr>talkieButtons := AList.update userId (b - {c}) (talkieButtons s)\<rparr>))"

definition stopTracks :: "sid \<Rightarrow> sussuros \<Rightarrow> sussuros" where
  "stopTracks i s = s\<lparr>streams := (streams s)(i := map (\<lambda>t. t\<lparr>ended := True\<rparr>) (streams s i))\<rparr>"

definition setTracksEnabled :: "sid \<Rightarrow> bool \<Rightarrow> sussuros \<Rightarrow> sussuros" where
  "setTracksEnabled i e s =
     s\<lparr>streams := (streams s)(i := map (\<lambda>t. t\<lparr>enabled := e\<rparr>) (streams s i))\<rparr>"

text \<open>
  Modelled from the spec: the methods of the transport handle (simplepeer.min.js).
  \<open>destroy\<close> marks the handle destroyed and no longer connected, \<open>addStream\<close>
  attaches a stream to it; \<open>signal\<close> and \<open>send\<close> (inside the methods of the same
  names below) hand it a payload. None of them throws.
\<close>

definition onTransport :: "hid \<Rightarrow> (peer \<Rightarrow> peer) \<Rightarrow> sussuros \<Rightarrow> sussuros" where
  "onTransport h f s = s\<lparr>transports := (transports s)(h := f (transports s h))\<rparr>"

definition destroy :: "hid \<Rightarrow> sussuros \<Rightarrow> sussuros" where
  "destroy h = onTransport h (\<lambda>p. p\<lparr>destroyed := True, connected := False\<rparr>)"

definition addStream :: "hid \<Rightarrow> sid \<Rightarrow> sussuros \<Rightarrow> sussuros" where
  "addStream h i = onTransport h (\<lambda>p. p\<lparr>attached := attached p @ [i]\<rparr>)"

section \<open>The module API (SussurosClass.js)\<close>

definition setupPeer :: "uid \<Rightarrow> bool \<Rightarrow> sussuros \<Rightarrow> sussuros" where
  "setupPeer userId isInitiator s =
     s\<lparr>peers := AList.update userId (nextTransport s) (peers s),
       transports := (transports s)(nextTransport s :=
          \<lparr>initiator = isInitiator, owner = userId, connected = False, destroyed = False,
           signalled = [], attached = [], sent = []\<rparr>),
       nextTransport := Suc (nextTransport s),
       renders := Suc (renders s)\<rparr>"

definition signal :: "uid \<Rightarrow> payload \<Rightarrow> sussuros \<Rightarrow> outcome" where
  "signal userId d s =
     (let s1 = (if map_of (peers s) userId = None then setupPeer userId False s else s)
      in case map_of (peers s1) userId of
           None \<Rightarrow> Threw undefinedError s1
         | Some h \<Rightarrow> Done (onTransport h (\<lambda>p. p\<lparr>signalled := signalled p @ [d]\<rparr>) s1))"

definition initPeer :: "uid \<Rightarrow> sussuros \<Rightarrow> sussuros" where
  "initPeer userId s =
     (case map_of (peers s) userId of
        None \<Rightarrow> setupPeer userId True s
      | Some h \<Rightarrow>
          if \<not> connected (transports s h) then setupPeer userId True s
          else logMsg Warn ''initPeer: Peer already exists for'' s)"

definition send :: "uid \<Rightarrow> payload \<Rightarrow> sussuros \<Rightarrow> sussuros" where
  "send userId d s =
     (case map_of (peers s) userId of
        None \<Rightarrow> s
      | Some h \<Rightarrow>
          if connected (transports s h)
          then onTransport h (\<lambda>p. p\<lparr>sent := sent p @ [d]\<rparr>) s
          else s)"

definition closePeer :: "uid \<Rightarrow> sussuros \<Rightarrow> outcome" where
  "closePeer userId s =
     (let s1 = s\<lparr>audioElements := AList.delete userId (audioElements s)\<rparr>;
          s2 = (case map_of (remoteStreams s1) userId of
                  None \<Rightarrow> s1 | Some i \<Rightarrow> stopTracks i s1);
          s3 = s2\<lparr>remoteStreams := AList.delete userId (remoteStreams s2)\<rparr>;
          s4 = (case map_of (localStreams s3) userId of
                  None \<Rightarrow> s3 | Some i \<Rightarrow> stopTracks i s3)
      in andThen (removeClass userId StreamBroadcasting s4) (\<lambda>s5.
         andThen (removeClass userId StreamConnected s5) (\<lambda>s6.
           (let s7 = s6\<lparr>localStreams := AList.delete userId (localStreams s6)\<rparr>;
                s8 = (case map_of (peers s7) userId of
                        None \<Rightarrow> s7 | Some h \<Rightarrow> destroy h s7)
            in andThen (removeClass userId PeerConnected s8) (\<lambda>s9.
                 Done (s9\<lparr>peers := AList.delete userId (peers s9)\<rparr>))))))"

definition isLocalStreamEnabled :: "uid \<Rightarrow> sussuros \<Rightarrow> bool" where
  "isLocalStreamEnabled userId s =
     (case map_of (localStreams s) userId of
        None \<Rightarrow> False
      | Some i \<Rightarrow> list_ex (\<lambda>t. enabled t = True) (streams s i))"

text \<open>\<open>avClient.toggleBroadcast?.(b)\<close>\<close>

definition toggleBroadcast :: "av_client \<Rightarrow> bool \<Rightarrow> sussuros \<Rightarrow> outcome" where
  "toggleBroadcast av b s =
     (case toggle av of
        NoToggle \<Rightarrow> Done s
      | ToggleSets \<Rightarrow> Done (s\<lparr>avClient := Some (av\<lparr>broadcasting := b\<rparr>)\<rparr>)
      | ToggleThrows \<Rightarrow> Threw ''toggleBroadcast failed'' s)"

text \<open>The branch of \<open>_disableAvClient\<close> after the \<open>try\<close>: mute or unmute per user.\<close>

definition disableAvClientDefault :: "bool \<Rightarrow> sussuros \<Rightarrow> sussuros" where
  "disableAvClientDefault disable s =
     (let isAudioEnabled = \<not> muted s in
      if disable then
        (let s1 = s\<lparr>savedAvEnabledState := isAudioEnabled\<rparr> in
         if savedAvEnabledState s1
         then (logMsg Debug ''Disabling AV client audio'' s1)\<lparr>muted := True\<rparr>
         else s1)
      else if savedAvEnabledState s \<noteq> isAudioEnabled
      then (logMsg Debug ''Enabling AV client audio'' s)\<lparr>muted := \<not> savedAvEnabledState s\<rparr>
      else s)"

text \<open>The body of the \<open>try\<close> when the client exists and is in the always-on voice mode.\<close>

definition disableAvClientAlways :: "av_client \<Rightarrow> bool \<Rightarrow> sussuros \<Rightarrow> outcome" where
  "disableAvClientAlways av disable s =
     (if disable then
        (let s1 = s\<lparr>savedMutedFlag := Some (muted s)\<rparr>;
             s2 = s1\<lparr>savedBroadcasting :=
                       Some (if exposesBroadcasting av then broadcasting av else \<not> muted s)\<rparr>
         in toggleBroadcast av False s2)
      else
        andThen
          (case savedBroadcasting s of
             Some b \<Rightarrow> toggleBroadcast av b s
           | None \<Rightarrow>
               (let shouldBroadcast = (if savedMutedFlag s = Some True then False else True)
                in toggleBroadcast av shouldBroadcast s))
          (\<lambda>s1. Done (s1\<lparr>savedMutedFlag := None, savedBroadcasting := None\<rparr>)))"

definition disableAvClient :: "bool \<Rightarrow> sussuros \<Rightarrow> sussuros" where
  "disableAvClient disable s =
     (if \<not> settingDisableAvClient s \<or> settingToggleBroadcast s then s
      else
        (case avClient s of
           None \<Rightarrow> disableAvClientDefault disable s
         | Some av \<Rightarrow>
             if isVoiceAlways av then
               (case disableAvClientAlways av disable s of
                  Done s1 \<Rightarrow> s1
                | Threw e s1 \<Rightarrow>
                    disableAvClientDefault disable (logMsg Error ''Error toggling AV broadcast'' s1))
             else disableAvClientDefault disable s))"

definition enableLocalStream :: "uid \<Rightarrow> bool \<Rightarrow> sussuros \<Rightarrow> outcome" where
  "enableLocalStream userId enable s =
     (if map_of (peers s) userId = None \<or> map_of (localStreams s) userId = None then
        (if map_of (peers s) userId \<noteq> None \<and> enable
         then Done ((logMsg Warn ''captureErrorAudio'' s)
                      \<lparr>notifications := notifications s @ [''captureErrorAudio'']\<rparr>)
         else Done s)
      else
        (let s1 = (if isLocalStreamEnabled userId s \<noteq> enable then
                     (case map_of (localStreams s) userId of
                        None \<Rightarrow> s
                      | Some i \<Rightarrow>
                          disableAvClient enable
                            (emit (PeerBroadcasting userId enable) (setTracksEnabled i enable s)))
                   else s)
         in if enable then addClass userId StreamBroadcasting s1
            else removeClass userId StreamBroadcasting s1))"

definition toggleLocalStream :: "uid \<Rightarrow> sussuros \<Rightarrow> outcome" where
  "toggleLocalStream userId s = enableLocalStream userId (\<not> isLocalStreamEnabled userId s) s"

text \<open>
  \<open>closeAllPeers\<close>: \<open>Map.forEach\<close> visits the entries in insertion order, skips an entry
  deleted before its turn, and stops at the first exception.
\<close>

fun closeEach :: "uid list \<Rightarrow> sussuros \<Rightarrow> outcome" where
  "closeEach [] s = Done s"
| "closeEach (userId # rest) s =
     (if map_of (peers s) userId = None then closeEach rest s
      else andThen
             (closePeer userId
                (emit (PeerClose userId) (logMsg Debug ''Closing peer'' s)))
             (closeEach rest))"

definition closeAllPeers :: "sussuros \<Rightarrow> outcome" where
  "closeAllPeers s = closeEach (map fst (peers s)) s"

definition onRtcSettingsChanged :: "string list \<Rightarrow> sussuros \<Rightarrow> outcome" where
  "onRtcSettingsChanged keys s =
     (if list_ex (\<lambda>k. k \<in> set [''client.audioSink'', ''client.audioSrc'']) keys
      then closeAllPeers (logMsg Debug ''Audio device changed, closing existing connections'' s)
      else Done s)"

definition remoteBroadcasting :: "uid \<Rightarrow> bool \<Rightarrow> sussuros \<Rightarrow> outcome" where
  "remoteBroadcasting userId b s =
     (if b then addClass userId StreamReceiving s else removeClass userId StreamReceiving s)"

definition setAudioElementStream :: "uid \<Rightarrow> sussuros \<Rightarrow> sussuros" where
  "setAudioElementStream userId s =
     (case map_of (audioElements s) userId of
        None \<Rightarrow> s
      | Some a \<Rightarrow>
          (case map_of (remoteStreams s) userId of
             None \<Rightarrow> s
           | Some i \<Rightarrow>
               s\<lparr>audioElements := AList.update userId (a\<lparr>srcObject := Some i\<rparr>) (audioElements s)\<rparr>))"

text \<open>
  \<open>_addUserAudioElement\<close> as the render handler calls it, with the button given. Where
  the browser's audio elements have a \<open>sinkId\<close>, \<open>setSinkId\<close> starts and its promise is
  recorded in \<open>pendingSinks\<close>, to settle later through \<open>sinkSet\<close> or \<open>sinkFailed\<close>;
  elsewhere the method logs at once.
\<close>

definition addUserAudioElement :: "uid \<Rightarrow> sussuros \<Rightarrow> sussuros" where
  "addUserAudioElement userId s =
     (let s0 = (if sinkIdSupported s
                then s\<lparr>pendingSinks := pendingSinks s @ [userId]\<rparr>
                else logMsg Debug ''Browser does not support output device selection'' s);
          s1 = s0\<lparr>audioElements := AList.update userId \<lparr>srcObject = None\<rparr> (audioElements s0)\<rparr>
      in if map_of (remoteStreams s1) userId \<noteq> None then setAudioElementStream userId s1 else s1)"

text \<open>The two callbacks on the promise of \<open>setSinkId\<close>.\<close>

definition sinkSet :: "uid \<Rightarrow> sussuros \<Rightarrow> sussuros" where
  "sinkSet userId s =
     logMsg Debug ''Audio output set:'' (s\<lparr>pendingSinks := remove1 userId (pendingSinks s)\<rparr>)"

definition sinkFailed :: "uid \<Rightarrow> sussuros \<Rightarrow> sussuros" where
  "sinkFailed userId s =
     logMsg Error ''Error setting audio output device:''
       (s\<lparr>pendingSinks := remove1 userId (pendingSinks s)\<rparr>)"

text \<open>
  \<open>_createUserAudio\<close>. The empty string stands for every falsy value of the setting
  \<open>audioSrc\<close>. When no stream is cached the method only starts \<open>getUserMedia\<close>; the
  promise is recorded in \<open>pendingCaptures\<close> and settles later through
  \<open>captureResolved\<close> or \<open>captureRejected\<close>.
\<close>

definition createUserAudio :: "uid \<Rightarrow> sussuros \<Rightarrow> outcome" where
  "createUserAudio userId s =
     (if audioSrc s = [] then Done (logMsg Warn ''Audio input source disabled'' s)
      else
        (case map_of (localStreams s) userId of
           Some i \<Rightarrow>
             (let s1 = logMsg Debug ''Adding user audio to stream'' s in
              case map_of (peers s1) userId of
                None \<Rightarrow> Threw undefinedError s1
              | Some h \<Rightarrow>
                  enableLocalStream userId False
                    ((addStream h i s1)\<lparr>savedAvEnabledState := \<not> muted s1\<rparr>))
         | None \<Rightarrow> Done (s\<lparr>pendingCaptures := pendingCaptures s @ [userId]\<rparr>)))"

text \<open>
  The \<open>then\<close> callback of the capture. The browser hands over a new MediaStream with
  tracks \<open>ts\<close>; it gets the next free address of the stream store.
\<close>

definition captureThen :: "uid \<Rightarrow> track list \<Rightarrow> sussuros \<Rightarrow> outcome" where
  "captureThen userId ts s =
     (let i = nextStream s;
          s1 = s\<lparr>streams := (streams s)(i := ts), nextStream := Suc i\<rparr>;
          s2 = logMsg Debug ''Got user audio:'' s1;
          s3 = s2\<lparr>localStreams := AList.update userId i (localStreams s2)\<rparr>;
          s4 = logMsg Debug ''Adding user audio to stream'' s3
      in case map_of (peers s4) userId of
           None \<Rightarrow> Threw undefinedError s4
         | Some h \<Rightarrow>
             andThen
               (enableLocalStream userId False
                  ((addStream h i s4)\<lparr>savedAvEnabledState := \<not> muted s4\<rparr>))
               (addClass userId StreamConnected))"

text \<open>The promise settles: \<open>then\<close> runs, and \<open>catch\<close> logs whatever \<open>then\<close> threw.\<close>

definition captureResolved :: "uid \<Rightarrow> track list \<Rightarrow> sussuros \<Rightarrow> sussuros" where
  "captureResolved userId ts s =
     (case captureThen userId ts (s\<lparr>pendingCaptures := remove1 userId (pendingCaptures s)\<rparr>) of
        Done s1 \<Rightarrow> s1
      | Threw e s1 \<Rightarrow> logMsg Error ''Error getting audio device:'' s1)"

definition captureRejected :: "uid \<Rightarrow> sussuros \<Rightarrow> sussuros" where
  "captureRejected userId s =
     logMsg Error ''Error getting audio device:''
       (s\<lparr>pendingCaptures := remove1 userId (pendingCaptures s)\<rparr>)"

section \<open>The callbacks that setupPeer registers on a transport handle\<close>

definition onSignal :: "uid \<Rightarrow> payload \<Rightarrow> sussuros \<Rightarrow> sussuros" where
  "onSignal userId d s = emit (PeerSignal userId d) (logMsg Debug ''SimplePeer signal'' s)"

definition onConnect :: "uid \<Rightarrow> sussuros \<Rightarrow> outcome" where
  "onConnect userId s =
     andThen (addClass userId PeerConnected (logMsg Debug ''SimplePeer connect'' s))
             (createUserAudio userId)"

definition onData :: "uid \<Rightarrow> payload \<Rightarrow> sussuros \<Rightarrow> sussuros" where
  "onData userId d s = logMsg Info ''SimplePeer data'' s"

definition onStream :: "uid \<Rightarrow> sid \<Rightarrow> sussuros \<Rightarrow> sussuros" where
  "onStream userId i s =
     (let s1 = logMsg Debug ''SimplePeer stream'' s
      in setAudioElementStream userId
           (s1\<lparr>remoteStreams := AList.update userId i (remoteStreams s1)\<rparr>))"

definition onClose :: "uid \<Rightarrow> sussuros \<Rightarrow> outcome" where
  "onClose userId s = closePeer userId (logMsg Debug ''SimplePeer close'' s)"

definition onError :: "uid \<Rightarrow> bool \<Rightarrow> sussuros \<Rightarrow> outcome" where
  "onError userId isDataChannelError s =
     (let s1 = (if isDataChannelError then logMsg Warn ''Peer connection closed'' s
                else logMsg Error ''SimplePeer error'' s)
      in case map_of (peers s1) userId of
           None \<Rightarrow> Threw undefinedError s1
         | Some h \<Rightarrow> if \<not> connected (transports s1 h) then closePeer userId s1 else Done s1)"

text \<open>
  Modelled from the spec: the transport completes its handshake (simplepeer.min.js).
  The handle reports \<open>connected\<close> from then on and its connect callback runs.
\<close>

definition transportConnects :: "hid \<Rightarrow> sussuros \<Rightarrow> outcome" where
  "transportConnects h s =
     onConnect (owner (transports s h)) (onTransport h (\<lambda>p. p\<lparr>connected := True\<rparr>) s)"

section \<open>Event entry points (hooks.js and the player list)\<close>

text \<open>The listener on the socket namespace; \<open>sender\<close> is its second argument.\<close>

definition onSocket :: "request \<Rightarrow> uid \<Rightarrow> sussuros \<Rightarrow> outcome" where
  "onSocket req sender s =
     (let s1 = logMsg Debug ''Socket event:'' s in
      case req of
        PeerSignal r d \<Rightarrow> if r = me s1 then signal sender d s1 else Done s1
      | PeerClose r \<Rightarrow> if r = me s1 then closePeer sender s1 else Done s1
      | PeerBroadcasting r b \<Rightarrow> if r = me s1 then remoteBroadcasting sender b s1 else Done s1
      | UnknownAction a \<Rightarrow> Done (logMsg Warn ''Unknown socket event:'' s1))"

text \<open>
  \<open>_onRenderPlayerList\<close>: one row per element carrying \<open>data-user-id\<close>, given as the
  value of \<open>$li.data('userId') || $li.attr('data-user-id')\<close> and whether the row
  already contains that user's button. The value is the attribute's string, or a
  number when the string looks like one; the empty string and the number 0 are
  the falsy ones. \<open>game.user.id\<close> is a string, so a row read as a number is never
  taken for the local user's own row, and its button, audio element and session
  are keyed by the number.
\<close>

definition renderRow :: "uid \<times> bool \<Rightarrow> sussuros \<Rightarrow> sussuros" where
  "renderRow row s =
     (let userId = fst row in
      if userId = Str [] \<or> userId = NumId 0 \<or> userId = me s then s
      else if map_of (talkieButtons s) userId \<noteq> None \<and> snd row then s
      else
        addUserAudioElement userId
          (if map_of (talkieButtons s) userId = None
           then s\<lparr>talkieButtons := AList.update userId {} (talkieButtons s)\<rparr>
           else s))"

definition onRenderPlayerList :: "(uid \<times> bool) list \<Rightarrow> sussuros \<Rightarrow> sussuros" where
  "onRenderPlayerList rows s = fold renderRow rows s"

text \<open>The click handler of a button.\<close>

definition onClick :: "uid \<Rightarrow> sussuros \<Rightarrow> outcome" where
  "onClick userId s =
     (if (case map_of (peers s) userId of
            None \<Rightarrow> True | Some h \<Rightarrow> \<not> connected (transports s h))
      then Done (initPeer userId s)
      else if settingToggleBroadcast s then toggleLocalStream userId s
      else Done s)"

text \<open>
  Modelled from the spec: the transport delivers the remote party's media stream
  (simplepeer.min.js). The new MediaStream with tracks \<open>ts\<close> gets the next free
  address and the stream callback of the handle runs.
\<close>

definition transportStreams :: "hid \<Rightarrow> track list \<Rightarrow> sussuros \<Rightarrow> sussuros" where
  "transportStreams h ts s =
     onStream (owner (transports s h)) (nextStream s)
       (s\<lparr>streams := (streams s)(nextStream s := ts), nextStream := Suc (nextStream s)\<rparr>)"

text \<open>
  The test \<open>this.peers.has(userId) && this.peers.get(userId).connected\<close> of \<open>send\<close>,
  of \<open>initPeer\<close> (negated) and of the context menu in hooks.js.
\<close>

definition connectedTo :: "uid \<Rightarrow> sussuros \<Rightarrow> bool" where
  "connectedTo userId s =
     (case map_of (peers s) userId of None \<Rightarrow> False | Some h \<Rightarrow> connected (transports s h))"

section \<open>Scenarios\<close>

text \<open>A track as \<open>getUserMedia\<close> delivers it: enabled and live.\<close>

definition liveTrack :: track where
  "liveTrack = \<lparr>enabled = True, ended = False\<rparr>"

text \<open>
  From a state \<open>base\<close>: the player list shows user u3, the local user clicks u3's
  button, the transport of the new session connects. The capture of the microphone
  is now pending.
\<close>

definition capturePendingFrom :: "sussuros \<Rightarrow> sussuros" where
  "capturePendingFrom base =
     state_of (transportConnects (nextTransport base)
       (initPeer (Str ''u3'') (onRenderPlayerList [((Str ''u3''), False)] base)))"

definition capturePending :: sussuros where
  "capturePending = capturePendingFrom (newSussuros (Str ''u1''))"

text \<open>The capture resolves while the session is open: a connected session, outbound audio off.\<close>

definition whisperReady :: sussuros where
  "whisperReady = captureResolved (Str ''u3'') [liveTrack] capturePending"

text \<open>The remote stream arrives as well.\<close>

definition inCall :: sussuros where
  "inCall = transportStreams 0 [liveTrack] whisperReady"

text \<open>The session is closed while the capture is pending; the capture resolves afterwards.\<close>

definition lateCapture :: sussuros where
  "lateCapture = captureResolved (Str ''u3'') [liveTrack] (state_of (closePeer (Str ''u3'') capturePending))"

text \<open>
  While the capture is pending u3 sends a close message; the local user clicks u3's
  button again and the new transport connects, which starts a second capture. Then
  both captures resolve.
\<close>

definition twoCaptures :: sussuros where
  "twoCaptures =
     captureResolved (Str ''u3'') [liveTrack]
       (captureResolved (Str ''u3'') [liveTrack]
          (state_of (transportConnects 1
             (initPeer (Str ''u3'')
                (state_of (onSocket (PeerClose (Str ''u1'')) (Str ''u3'') capturePending))))))"

text \<open>In the call with u3 the transport delivers a second inbound stream.\<close>

definition twoInbound :: sussuros where
  "twoInbound = transportStreams 0 [liveTrack] inCall"

text \<open>After the late capture the local user clicks u3's button again: a session that negotiates.\<close>

definition renegotiating :: sussuros where
  "renegotiating = initPeer (Str ''u3'') lateCapture"

text \<open>An A/V client in the always-on voice mode whose \<open>toggleBroadcast\<close> works.\<close>

definition alwaysOnClient :: "bool \<Rightarrow> av_client" where
  "alwaysOnClient b =
     \<lparr>isVoiceAlways = True, exposesBroadcasting = False, broadcasting = b, toggle = ToggleSets\<rparr>"

text \<open>Always-on mode, the user unmuted and broadcasting, a connected session with u3.\<close>

definition alwaysOnReady :: sussuros where
  "alwaysOnReady =
     captureResolved (Str ''u3'') [liveTrack]
       (capturePendingFrom ((newSussuros (Str ''u1''))\<lparr>avClient := Some (alwaysOnClient True)\<rparr>))"

text \<open>Always-on mode, the user muted and not broadcasting, no whisper started yet.\<close>

definition mutedAlwaysOn :: sussuros where
  "mutedAlwaysOn =
     (newSussuros (Str ''u1''))\<lparr>muted := True, avClient := Some (alwaysOnClient False)\<rparr>"

text \<open>
  User uA's signalling arrives before the player list shows a row for uA, so the
  responder session for uA has no button; then the list shows uB and the local user
  clicks uB's button.
\<close>

definition twoSessions :: sussuros where
  "twoSessions =
     initPeer (Str ''uB'')
       (onRenderPlayerList [((Str ''uB''), False)]
          (state_of (onSocket (PeerSignal (Str ''u1'') ''offer'') (Str ''uA'') (newSussuros (Str ''u1'')))))"

text \<open>
  User u2's signalling arrives while the player list shows no row for u2: a responder
  session without a button.
\<close>

definition unlistedCaller :: sussuros where
  "unlistedCaller = state_of (onSocket (PeerSignal (Str ''u1'') ''offer'') (Str ''u2'') (newSussuros (Str ''u1'')))"

section \<open>Evaluation and frame lemmas\<close>

lemmas model_defs =
  logMsg_def emit_def undefinedError_def newSussuros_def addClass_def removeClass_def
  stopTracks_def setTracksEnabled_def onTransport_def destroy_def addStream_def
  setupPeer_def signal_def initPeer_def send_def closePeer_def isLocalStreamEnabled_def
  toggleBroadcast_def disableAvClientDefault_def disableAvClientAlways_def disableAvClient_def
  enableLocalStream_def toggleLocalStream_def closeAllPeers_def onRtcSettingsChanged_def
  remoteBroadcasting_def setAudioElementStream_def addUserAudioElement_def createUserAudio_def
  captureThen_def captureResolved_def captureRejected_def onSignal_def onConnect_def
  onData_def onStream_def onClose_def onError_def transportConnects_def onSocket_def
  renderRow_def onRenderPlayerList_def onClick_def transportStreams_def connectedTo_def
  sinkSet_def sinkFailed_def Let_def

lemmas scenario_defs =
  liveTrack_def capturePendingFrom_def capturePending_def whisperReady_def inCall_def
  lateCapture_def renegotiating_def alwaysOnClient_def alwaysOnReady_def mutedAlwaysOn_def
  twoSessions_def unlistedCaller_def twoCaptures_def twoInbound_def

lemma stopTracks_frame [simp]:
  "talkieButtons (stopTracks i s) = talkieButtons s"
  "peers (stopTracks i s) = peers s"
  "localStreams (stopTracks i s) = localStreams s"
  "remoteStreams (stopTracks i s) = remoteStreams s"
  "audioElements (stopTracks i s) = audioElements s"
  "transports (stopTracks i s) = transports s"
  by (simp_all add: stopTracks_def)

lemma onTransport_frame [simp]:
  "talkieButtons (onTransport h f s) = talkieButtons s"
  "peers (onTransport h f s) = peers s"
  "localStreams (onTransport h f s) = localStreams s"
  "remoteStreams (onTransport h f s) = remoteStreams s"
  "audioElements (onTransport h f s) = audioElements s"
  "streams (onTransport h f s) = streams s"
  by (simp_all add: onTransport_def)

lemma streams_stopTracks:
  "streams (stopTracks i s) j =
     (if j = i then map (\<lambda>t. t\<lparr>ended := True\<rparr>) (streams s i) else streams s j)"
  by (simp add: stopTracks_def)

section \<open>closePeer\<close>

text \<open>Without a button for the user, closePeer throws at its first \<open>removeClass\<close>.\<close>

lemma closePeer_throws:
  "map_of (talkieButtons s) u = None \<Longrightarrow> \<not> returned (closePeer u s)"
  by (simp add: closePeer_def Let_def removeClass_def split: option.splits)

lemma closePeer_throws_frame:
  assumes "map_of (talkieButtons s) u = None"
  shows "peers (state_of (closePeer u s)) = peers s"
    and "transports (state_of (closePeer u s)) = transports s"
    and "localStreams (state_of (closePeer u s)) = localStreams s"
  using assms
  by (simp_all add: closePeer_def Let_def removeClass_def split: option.splits)

text \<open>With a button, closePeer runs to its end; this is the state it returns.\<close>

lemma closePeer_returns:
  assumes "map_of (talkieButtons s) u = Some b"
  shows "closePeer u s = Done (
     let s1 = s\<lparr>audioElements := AList.delete u (audioElements s)\<rparr>;
         s2 = (case map_of (remoteStreams s) u of None \<Rightarrow> s1 | Some i \<Rightarrow> stopTracks i s1);
         s3 = s2\<lparr>remoteStreams := AList.delete u (remoteStreams s)\<rparr>;
         s4 = (case map_of (localStreams s) u of None \<Rightarrow> s3 | Some i \<Rightarrow> stopTracks i s3);
         s7 = s4\<lparr>localStreams := AList.delete u (localStreams s)\<rparr>;
         s8 = (case map_of (peers s) u of None \<Rightarrow> s7 | Some h \<Rightarrow> destroy h s7)
     in s8\<lparr>talkieButtons :=
              AList.update u (b - {StreamBroadcasting} - {StreamConnected} - {PeerConnected})
                (talkieButtons s),
           peers := AList.delete u (peers s)\<rparr>)"
  using assms
  by (simp add: closePeer_def Let_def removeClass_def update_conv' destroy_def stopTracks_def
      onTransport_def split: option.splits)

lemma closePeer_tables:
  assumes "map_of (talkieButtons s) u = Some b"
  shows "peers (state_of (closePeer u s)) = AList.delete u (peers s)"
    and "audioElements (state_of (closePeer u s)) = AList.delete u (audioElements s)"
    and "remoteStreams (state_of (closePeer u s)) = AList.delete u (remoteStreams s)"
    and "localStreams (state_of (closePeer u s)) = AList.delete u (localStreams s)"
    and "nextStream (state_of (closePeer u s)) = nextStream s"
  by (simp_all add: closePeer_returns [OF assms] Let_def destroy_def onTransport_def
      stopTracks_def split: option.splits)

lemma closePeer_destroys:
  assumes "map_of (talkieButtons s) u = Some b" and "map_of (peers s) u = Some h"
  shows "destroyed (transports (state_of (closePeer u s)) h)"
  using assms(2)
  by (simp add: closePeer_returns [OF assms(1)] Let_def destroy_def onTransport_def
      split: option.splits)

text \<open>
  The stream a table holds for the user is stopped track by track: afterwards its
  tracks are the tracks it had, each one ended.
\<close>

lemma closePeer_stops_remote:
  assumes "map_of (talkieButtons s) u = Some b" and "map_of (remoteStreams s) u = Some i"
  shows "streams (state_of (closePeer u s)) i = map (\<lambda>t. t\<lparr>ended := True\<rparr>) (streams s i)"
  using assms(2)
  by (simp add: closePeer_returns [OF assms(1)] Let_def destroy_def streams_stopTracks
      comp_def split: option.splits)

lemma closePeer_stops_local:
  assumes "map_of (talkieButtons s) u = Some b" and "map_of (localStreams s) u = Some i"
  shows "streams (state_of (closePeer u s)) i = map (\<lambda>t. t\<lparr>ended := True\<rparr>) (streams s i)"
  using assms(2)
  by (simp add: closePeer_returns [OF assms(1)] Let_def destroy_def streams_stopTracks
      comp_def split: option.splits)

text \<open>A stream that neither table holds for the user is not touched.\<close>

lemma closePeer_other_streams:
  assumes "map_of (talkieButtons s) u = Some b"
    and "map_of (remoteStreams s) u \<noteq> Some j" and "map_of (localStreams s) u \<noteq> Some j"
  shows "streams (state_of (closePeer u s)) j = streams s j"
  using assms(2,3)
  by (simp add: closePeer_returns [OF assms(1)] Let_def destroy_def streams_stopTracks
      split: option.splits)

text \<open>
  What closePeer does by design. It completes exactly when the user has a button
  in \<open>talkieButtons\<close>. After it completes, the inbound stream and the outbound stream
  that the tables hold for the user have each of their tracks stopped, the
  transport handle the table held is destroyed, and the user id is in none of the
  tables \<open>peers\<close>, \<open>audioElements\<close>, \<open>remoteStreams\<close>, \<open>localStreams\<close>.
\<close>

lemma closePeer_releases_table_entries:
  "(returned (closePeer u s) \<longleftrightarrow> map_of (talkieButtons s) u \<noteq> None) \<and>
   (returned (closePeer u s) \<longrightarrow>
      (\<forall>i. map_of (remoteStreams s) u = Some i \<longrightarrow>
           streams (state_of (closePeer u s)) i = map (\<lambda>t. t\<lparr>ended := True\<rparr>) (streams s i)) \<and>
      (\<forall>i. map_of (localStreams s) u = Some i \<longrightarrow>
           streams (state_of (closePeer u s)) i = map (\<lambda>t. t\<lparr>ended := True\<rparr>) (streams s i)) \<and>
      (\<forall>h. map_of (peers s) u = Some h \<longrightarrow>
           destroyed (transports (state_of (closePeer u s)) h)) \<and>
      u \<notin> fst ` set (peers (state_of (closePeer u s))) \<and>
      u \<notin> fst ` set (audioElements (state_of (closePeer u s))) \<and>
      u \<notin> fst ` set (remoteStreams (state_of (closePeer u s))) \<and>
      u \<notin> fst ` set (localStreams (state_of (closePeer u s))))"
proof (cases "map_of (talkieButtons s) u")
  case None
  then show ?thesis using closePeer_throws [of s u] by simp
next
  case (Some b)
  have r: "returned (closePeer u s)"
    by (simp add: closePeer_returns [OF Some])
  show ?thesis
    using r Some closePeer_stops_remote [OF Some] closePeer_stops_local [OF Some]
      closePeer_destroys [OF Some]
    by (simp add: closePeer_tables [OF Some] delete_notin_dom)
qed

text \<open>
  The same for an inbound stream: \<open>remoteStreams.set\<close> in the stream callback
  replaces stream 1 by stream 2, and closePeer stops stream 2 only.
\<close>

lemma closePeer_leaves_displaced_inbound_live:
  "map_of (remoteStreams twoInbound) (Str ''u3'') = Some 2 \<and>
   returned (closePeer (Str ''u3'') twoInbound) \<and>
   streams (state_of (closePeer (Str ''u3'') twoInbound)) 2 = [\<lparr>enabled = True, ended = True\<rparr>] \<and>
   streams (state_of (closePeer (Str ''u3'') twoInbound)) 1 = [\<lparr>enabled = True, ended = False\<rparr>]"
  by (simp add: scenario_defs model_defs)

text \<open>
  Claim C2, where the code departs from it. In \<open>twoCaptures\<close> the session with u3 has
  acquired two outbound streams, both attached to its transport: \<open>localStreams.set\<close>
  in the capture callback replaced stream 0 by stream 1 without stopping it.
  closePeer completes, stops the track of stream 1, destroys the transport and
  empties the tables, and the track of stream 0 is still live.
\<close>

theorem closePeer_leaves_displaced_stream_live:
  "map_of (peers twoCaptures) (Str ''u3'') = Some 1 \<and>
   attached (transports twoCaptures 1) = [0, 1] \<and>
   map_of (localStreams twoCaptures) (Str ''u3'') = Some 1 \<and>
   returned (closePeer (Str ''u3'') twoCaptures) \<and>
   destroyed (transports (state_of (closePeer (Str ''u3'') twoCaptures)) 1) \<and>
   peers (state_of (closePeer (Str ''u3'') twoCaptures)) = [] \<and>
   localStreams (state_of (closePeer (Str ''u3'') twoCaptures)) = [] \<and>
   streams (state_of (closePeer (Str ''u3'') twoCaptures)) 1 = [\<lparr>enabled = False, ended = True\<rparr>] \<and>
   streams (state_of (closePeer (Str ''u3'') twoCaptures)) 0 = [\<lparr>enabled = False, ended = False\<rparr>]"
  by (simp add: scenario_defs model_defs)

section \<open>initPeer\<close>

lemma count_key_update:
  "distinct (map fst al) \<Longrightarrow> length (filter (\<lambda>e. fst e = k) (AList.update k v al)) = 1"
proof (induction al)
  case Nil
  then show ?case by simp
next
  case (Cons p ps)
  show ?case
  proof (cases "fst p = k")
    case True
    with Cons.prems have "k \<notin> fst ` set ps" by auto
    then have "filter (\<lambda>e. fst e = k) ps = []"
      by (auto simp add: filter_empty_conv)
    with True show ?thesis by simp
  next
    case False
    with Cons show ?thesis by simp
  qed
qed

lemma initPeer_peers:
  "peers (initPeer u s) =
     (if connectedTo u s then peers s else AList.update u (nextTransport s) (peers s))"
  by (simp add: initPeer_def connectedTo_def setupPeer_def logMsg_def split: option.splits)

lemma initPeer_keeps_distinct:
  "distinct (map fst (peers s)) \<Longrightarrow> distinct (map fst (peers (initPeer u s)))"
  by (simp add: initPeer_peers distinct_update)

lemma initPeer_has_entry: "map_of (peers (initPeer u s)) u \<noteq> None"
  by (auto simp add: initPeer_peers update_conv' connectedTo_def split: option.splits)

text \<open>
  Claim C1, as the code has it. A connect is a logged no-operation that keeps the
  transport handle only when the session's transport reports \<open>connected\<close>. When the
  session is absent or not connected yet, connect puts a new initiator handle into
  the table under the user id. Either way, after two connects in a row the table
  (a \<open>Map\<close>, so with one entry per key) holds exactly one entry for the user id.
\<close>

theorem initPeer_connect_twice:
  "(connectedTo u s \<longrightarrow> initPeer u s = logMsg Warn ''initPeer: Peer already exists for'' s) \<and>
   (\<not> connectedTo u s \<longrightarrow>
      map_of (peers (initPeer u s)) u = Some (nextTransport s) \<and>
      transports (initPeer u s) (nextTransport s) =
        \<lparr>initiator = True, owner = u, connected = False, destroyed = False,
         signalled = [], attached = [], sent = []\<rparr>) \<and>
   (distinct (map fst (peers s)) \<longrightarrow>
      length (filter (\<lambda>e. fst e = u) (peers (initPeer u (initPeer u s)))) = 1)"
proof (intro conjI impI)
  assume "connectedTo u s"
  then show "initPeer u s = logMsg Warn ''initPeer: Peer already exists for'' s"
    by (simp add: initPeer_def connectedTo_def split: option.splits)
next
  assume "\<not> connectedTo u s"
  then show "map_of (peers (initPeer u s)) u = Some (nextTransport s)"
    by (simp add: initPeer_peers update_conv')
next
  assume "\<not> connectedTo u s"
  then show "transports (initPeer u s) (nextTransport s) =
        \<lparr>initiator = True, owner = u, connected = False, destroyed = False,
         signalled = [], attached = [], sent = []\<rparr>"
    by (simp add: initPeer_def connectedTo_def setupPeer_def split: option.splits)
next
  assume d: "distinct (map fst (peers s))"
  let ?s1 = "initPeer u s"
  have d1: "distinct (map fst (peers ?s1))" using d by (rule initPeer_keeps_distinct)
  show "length (filter (\<lambda>e. fst e = u) (peers (initPeer u ?s1))) = 1"
  proof (cases "connectedTo u ?s1")
    case False
    then show ?thesis by (simp add: initPeer_peers [of u ?s1] count_key_update [OF d1])
  next
    case True
    have "peers (initPeer u ?s1) = peers ?s1"
      using True by (simp add: initPeer_peers [of u ?s1])
    moreover have "peers ?s1 = AList.update u (the (map_of (peers ?s1) u)) (peers ?s1)"
      using initPeer_has_entry [of u s] by (auto simp add: update_triv)
    ultimately show ?thesis
      using count_key_update [OF d1, of u "the (map_of (peers ?s1) u)"] by simp
  qed
qed

text \<open>
  Witness for C1: connect to u3 in the connected session \<open>whisperReady\<close> (a logged
  no-operation) and connect to u2 twice from the constructor's state.
\<close>

theorem initPeer_connect_twice_witness:
  "connectedTo (Str ''u3'') whisperReady \<and>
   initPeer (Str ''u3'') whisperReady = logMsg Warn ''initPeer: Peer already exists for'' whisperReady \<and>
   \<not> connectedTo (Str ''u2'') (newSussuros (Str ''u1'')) \<and>
   map_of (peers (initPeer (Str ''u2'') (newSussuros (Str ''u1'')))) (Str ''u2'') = Some 0 \<and>
   distinct (map fst (peers (newSussuros (Str ''u1'')))) \<and>
   length (filter (\<lambda>e. fst e = (Str ''u2''))
     (peers (initPeer (Str ''u2'') (initPeer (Str ''u2'') (newSussuros (Str ''u1'')))))) = 1"
proof -
  have pre: "connectedTo (Str ''u3'') whisperReady" "\<not> connectedTo (Str ''u2'') (newSussuros (Str ''u1''))"
    "distinct (map fst (peers (newSussuros (Str ''u1''))))" "nextTransport (newSussuros (Str ''u1'')) = 0"
    by (simp_all add: scenario_defs model_defs)
  show ?thesis
    using initPeer_connect_twice [of "(Str ''u3'')" whisperReady]
      initPeer_connect_twice [of "(Str ''u2'')" "newSussuros (Str ''u1'')"] pre
    by simp
qed

text \<open>
  Counterexample to C1 as stated: a second connect while the first session still
  negotiates replaces handle 0 by handle 1, logs nothing and leaves handle 0 alive.
\<close>

theorem initPeer_twice_replaces_handle:
  "map_of (peers (initPeer (Str ''u2'') (newSussuros (Str ''u1'')))) (Str ''u2'') = Some 0 \<and>
   map_of (peers (initPeer (Str ''u2'') (initPeer (Str ''u2'') (newSussuros (Str ''u1''))))) (Str ''u2'') = Some 1 \<and>
   logs (initPeer (Str ''u2'') (initPeer (Str ''u2'') (newSussuros (Str ''u1'')))) = [] \<and>
   destroyed (transports (initPeer (Str ''u2'') (initPeer (Str ''u2'') (newSussuros (Str ''u1'')))) 0) = False"
  by (simp add: initPeer_def setupPeer_def newSussuros_def)

section \<open>A capture that resolves after the session closed\<close>

lemma captureResolved_no_session:
  assumes "map_of (peers s) u = None"
  shows "captureResolved u ts s =
     s\<lparr>pendingCaptures := remove1 u (pendingCaptures s),
       streams := (streams s)(nextStream s := ts),
       nextStream := Suc (nextStream s),
       localStreams := AList.update u (nextStream s) (localStreams s),
       logs := logs s @ [(Debug, ''Got user audio:''), (Debug, ''Adding user audio to stream''),
                         (Error, ''Error getting audio device:'')]\<rparr>"
  using assms by (simp add: captureResolved_def captureThen_def logMsg_def Let_def)

text \<open>
  When closePeer has completed for a user and the capture for that user resolves
  next, no transport changes, the failed attachment is logged by the handler meant
  for a failed capture, and the stream is stored in \<open>localStreams\<close> under the user
  id with its tracks exactly as delivered.
\<close>

lemma late_capture_cached_not_attached:
  assumes "returned (closePeer u s)"
  shows "transports (captureResolved u ts (state_of (closePeer u s))) =
           transports (state_of (closePeer u s)) \<and>
         map_of (localStreams (captureResolved u ts (state_of (closePeer u s)))) u =
           Some (nextStream s) \<and>
         streams (captureResolved u ts (state_of (closePeer u s))) (nextStream s) = ts \<and>
         logs (captureResolved u ts (state_of (closePeer u s))) =
           logs (state_of (closePeer u s)) @
             [(Debug, ''Got user audio:''), (Debug, ''Adding user audio to stream''),
              (Error, ''Error getting audio device:'')]"
proof -
  obtain b where b: "map_of (talkieButtons s) u = Some b"
    using assms closePeer_throws [of s u] by (cases "map_of (talkieButtons s) u") auto
  let ?s1 = "state_of (closePeer u s)"
  have gone: "map_of (peers ?s1) u = None"
    by (simp add: closePeer_tables(1) [OF b] delete_conv')
  have n: "nextStream ?s1 = nextStream s"
    by (rule closePeer_tables(5) [OF b])
  show ?thesis
    by (simp add: captureResolved_no_session [OF gone] n update_conv')
qed

text \<open>
  Claim C3, where the code departs from it. The session with u3 is closed while
  its capture is pending (\<open>capturePending\<close>, then closePeer). When the capture
  resolves, the callback throws on the missing session before it reaches its own
  \<open>enableLocalStream(userId, false)\<close>: the track of the new stream stays live and
  enabled, cached for u3 although u3 has no session. When the local user clicks
  u3's button again and the new transport connects, that cached stream is attached
  to it, its track still live.
\<close>

theorem late_capture_tracks_stay_live:
  "returned (closePeer (Str ''u3'') capturePending) \<and>
   pendingCaptures (state_of (closePeer (Str ''u3'') capturePending)) = [Str ''u3''] \<and>
   list_all ended (streams lateCapture 0) = False \<and>
   streams lateCapture 0 = [\<lparr>enabled = True, ended = False\<rparr>] \<and>
   localStreams lateCapture = [(Str ''u3'', 0)] \<and>
   peers lateCapture = [] \<and>
   logs lateCapture =
     logs (state_of (closePeer (Str ''u3'') capturePending)) @
       [(Debug, ''Got user audio:''), (Debug, ''Adding user audio to stream''),
        (Error, ''Error getting audio device:'')] \<and>
   map_of (peers renegotiating) (Str ''u3'') = Some 1 \<and>
   attached (transports (state_of (transportConnects 1 renegotiating)) 1) = [0] \<and>
   streams (state_of (transportConnects 1 renegotiating)) 0 = [\<lparr>enabled = False, ended = False\<rparr>]"
  by (simp add: scenario_defs model_defs)

section \<open>The built-in A/V client around a whisper\<close>

lemma disableAvClient_begin:
  assumes "settingDisableAvClient s" "\<not> settingToggleBroadcast s"
    "avClient s = Some av" "isVoiceAlways av" "toggle av = ToggleSets"
  shows "disableAvClient True s =
     s\<lparr>savedMutedFlag := Some (muted s),
       savedBroadcasting := Some (if exposesBroadcasting av then broadcasting av else \<not> muted s),
       avClient := Some (av\<lparr>broadcasting := False\<rparr>)\<rparr>"
  using assms
  by (simp add: disableAvClient_def disableAvClientAlways_def toggleBroadcast_def Let_def)

text \<open>
  The restore path in the always-on mode: the saved broadcast flag if there is one,
  else the negation of the saved mute flag, where a missing mute flag counts as
  not muted; then both saved values are cleared.
\<close>

lemma disableAvClient_end:
  assumes "settingDisableAvClient s" "\<not> settingToggleBroadcast s"
    "avClient s = Some av" "isVoiceAlways av" "toggle av = ToggleSets"
  shows "disableAvClient False s =
     s\<lparr>avClient := Some (av\<lparr>broadcasting :=
            (case savedBroadcasting s of Some b \<Rightarrow> b | None \<Rightarrow> savedMutedFlag s \<noteq> Some True)\<rparr>),
       savedMutedFlag := None, savedBroadcasting := None\<rparr>"
  using assms
  by (simp add: disableAvClient_def disableAvClientAlways_def toggleBroadcast_def Let_def
      split: option.splits)

lemma disableAvClient_frame:
  "streams (disableAvClient e s) = streams s"
  "localStreams (disableAvClient e s) = localStreams s"
  "peers (disableAvClient e s) = peers s"
  "talkieButtons (disableAvClient e s) = talkieButtons s"
  "settingDisableAvClient (disableAvClient e s) = settingDisableAvClient s"
  "settingToggleBroadcast (disableAvClient e s) = settingToggleBroadcast s"
  by (simp_all add: disableAvClient_def disableAvClientAlways_def disableAvClientDefault_def
      toggleBroadcast_def logMsg_def Let_def split: option.splits toggle_impl.splits)

text \<open>
  The per-user mute path, for comparison: \<open>_createUserAudio\<close> stores the current
  audio state in \<open>savedAvEnabledState\<close> just before its first
  \<open>enableLocalStream(userId, false)\<close>, and with that value the restore changes nothing.
\<close>

lemma disableAvClientDefault_seeded:
  "disableAvClientDefault False (s\<lparr>savedAvEnabledState := \<not> muted s\<rparr>) =
     s\<lparr>savedAvEnabledState := \<not> muted s\<rparr>"
  by (simp add: disableAvClientDefault_def)

text \<open>
  Claim C4, where the code departs from it. In the always-on mode with the
  exclusive option on, \<open>_disableAvClient(false)\<close> with nothing saved does not leave
  the broadcast switch alone: it switches broadcasting on.
\<close>

theorem endExclusive_nothing_saved_turns_broadcast_on:
  assumes "settingDisableAvClient s" and "\<not> settingToggleBroadcast s"
    and "avClient s = Some av" and "isVoiceAlways av" and "toggle av = ToggleSets"
    and "savedMutedFlag s = None" and "savedBroadcasting s = None"
  shows "map_option broadcasting (avClient (disableAvClient False s)) = Some True"
  using disableAvClient_end [OF assms(1-5)] assms(6,7) by simp

text \<open>
  The failing input of C4: a muted user in the always-on mode who is not
  broadcasting and has started no whisper.
\<close>

theorem endExclusive_nothing_saved_witness:
  "settingDisableAvClient mutedAlwaysOn \<and>
   \<not> settingToggleBroadcast mutedAlwaysOn \<and>
   avClient mutedAlwaysOn = Some (alwaysOnClient False) \<and>
   muted mutedAlwaysOn \<and>
   savedMutedFlag mutedAlwaysOn = None \<and>
   savedBroadcasting mutedAlwaysOn = None \<and>
   map_option broadcasting (avClient mutedAlwaysOn) = Some False \<and>
   map_option broadcasting (avClient (disableAvClient False mutedAlwaysOn)) = Some True"
proof -
  have pre: "settingDisableAvClient mutedAlwaysOn" "\<not> settingToggleBroadcast mutedAlwaysOn"
    "avClient mutedAlwaysOn = Some (alwaysOnClient False)"
    "isVoiceAlways (alwaysOnClient False)" "toggle (alwaysOnClient False) = ToggleSets"
    "savedMutedFlag mutedAlwaysOn = None" "savedBroadcasting mutedAlwaysOn = None"
    by (simp_all add: mutedAlwaysOn_def alwaysOnClient_def newSussuros_def)
  have more: "muted mutedAlwaysOn" "broadcasting (alwaysOnClient False) = False"
    by (simp_all add: mutedAlwaysOn_def alwaysOnClient_def newSussuros_def)
  show ?thesis
    using endExclusive_nothing_saved_turns_broadcast_on [OF pre] pre(1,2,3,6,7) more
    by simp
qed

text \<open>
  The same through the module's own calls: the muted user only connects to u3; when
  the capture resolves, the first \<open>enableLocalStream(userId, false)\<close> finds the new
  tracks enabled and runs the restore path.
\<close>

lemma connecting_turns_broadcast_on:
  "map_option broadcasting
     (avClient (captureResolved (Str ''u3'') [liveTrack] (capturePendingFrom mutedAlwaysOn))) = Some True"
  by (simp add: scenario_defs model_defs)

section \<open>enableLocalStream\<close>

lemma enableLocalStream_change:
  assumes "map_of (peers s) u = Some h" "map_of (localStreams s) u = Some i"
    "isLocalStreamEnabled u s \<noteq> e"
  shows "\<exists>bs. state_of (enableLocalStream u e s) =
     (disableAvClient e (emit (PeerBroadcasting u e) (setTracksEnabled i e s)))
       \<lparr>talkieButtons := bs\<rparr>"
proof -
  let ?s1 = "disableAvClient e (emit (PeerBroadcasting u e) (setTracksEnabled i e s))"
  have e: "enableLocalStream u e s =
      (if e then addClass u StreamBroadcasting ?s1 else removeClass u StreamBroadcasting ?s1)"
    using assms by (simp add: enableLocalStream_def Let_def)
  have a: "\<exists>bs. state_of (addClass u c ?s1) = ?s1\<lparr>talkieButtons := bs\<rparr>" for c
    by (cases "map_of (talkieButtons ?s1) u")
       (auto simp add: addClass_def intro: exI [of _ "talkieButtons ?s1"])
  have r: "\<exists>bs. state_of (removeClass u c ?s1) = ?s1\<lparr>talkieButtons := bs\<rparr>" for c
    by (cases "map_of (talkieButtons ?s1) u")
       (auto simp add: removeClass_def intro: exI [of _ "talkieButtons ?s1"])
  show ?thesis
    unfolding e using a [of StreamBroadcasting] r [of StreamBroadcasting] by (cases e) simp_all
qed

lemma enableLocalStream_same:
  assumes "map_of (peers s) u = Some h" "map_of (localStreams s) u = Some i"
    "isLocalStreamEnabled u s = e"
  shows "\<exists>bs. state_of (enableLocalStream u e s) = s\<lparr>talkieButtons := bs\<rparr>"
proof -
  have e: "enableLocalStream u e s =
      (if e then addClass u StreamBroadcasting s else removeClass u StreamBroadcasting s)"
    using assms by (simp add: enableLocalStream_def Let_def)
  have a: "\<exists>bs. state_of (addClass u c s) = s\<lparr>talkieButtons := bs\<rparr>" for c
    by (cases "map_of (talkieButtons s) u")
       (auto simp add: addClass_def intro: exI [of _ "talkieButtons s"])
  have r: "\<exists>bs. state_of (removeClass u c s) = s\<lparr>talkieButtons := bs\<rparr>" for c
    by (cases "map_of (talkieButtons s) u")
       (auto simp add: removeClass_def intro: exI [of _ "talkieButtons s"])
  show ?thesis
    unfolding e using a [of StreamBroadcasting] r [of StreamBroadcasting] by (cases e) simp_all
qed

lemma isLocalStreamEnabled_set:
  assumes "map_of (localStreams s) u = Some i" "streams s i \<noteq> []"
  shows "isLocalStreamEnabled u (setTracksEnabled i e s) = e"
  using assms
  by (cases "streams s i")
     (auto simp add: isLocalStreamEnabled_def setTracksEnabled_def list_ex_iff)

lemma isLocalStreamEnabled_cong:
  assumes "localStreams s' = localStreams s" "streams s' = streams s"
  shows "isLocalStreamEnabled u s' = isLocalStreamEnabled u s"
  using assms by (simp add: isLocalStreamEnabled_def split: option.splits)

lemma enableLocalStream_sets_flag:
  assumes "map_of (peers s) u = Some h" "map_of (localStreams s) u = Some i" "streams s i \<noteq> []"
  shows "isLocalStreamEnabled u (state_of (enableLocalStream u e s)) = e"
proof (cases "isLocalStreamEnabled u s = e")
  case True
  from enableLocalStream_same [OF assms(1,2) True]
  obtain bs where "state_of (enableLocalStream u e s) = s\<lparr>talkieButtons := bs\<rparr>" ..
  then show ?thesis using True by (simp add: isLocalStreamEnabled_def split: option.splits)
next
  case False
  let ?s0 = "setTracksEnabled i e s"
  let ?s1 = "disableAvClient e (emit (PeerBroadcasting u e) ?s0)"
  from enableLocalStream_change [OF assms(1,2) False]
  obtain bs where r: "state_of (enableLocalStream u e s) = ?s1\<lparr>talkieButtons := bs\<rparr>" ..
  have "isLocalStreamEnabled u (?s1\<lparr>talkieButtons := bs\<rparr>) = isLocalStreamEnabled u ?s0"
    by (rule isLocalStreamEnabled_cong) (simp_all add: disableAvClient_frame emit_def)
  then show ?thesis using r isLocalStreamEnabled_set [OF assms(2,3), of e] by simp
qed

text \<open>
  Claim C5. Always-on mode and the exclusive option on, the shared channel unmuted
  and broadcasting, a session with P whose captured stream has a track and is not
  enabled: right after enabling outbound audio to P the channel does not broadcast,
  and right after disabling it again the channel broadcasts.
\<close>

theorem exclusivity_round_trip:
  assumes "avClient s = Some av" and "isVoiceAlways av" and "toggle av = ToggleSets"
    and "settingDisableAvClient s" and "\<not> settingToggleBroadcast s"
    and "\<not> muted s" and "broadcasting av"
    and "map_of (peers s) p = Some h" and "map_of (localStreams s) p = Some i"
    and "streams s i \<noteq> []" and "\<not> isLocalStreamEnabled p s"
  shows "map_option broadcasting (avClient (state_of (enableLocalStream p True s))) = Some False \<and>
         map_option broadcasting
           (avClient (state_of (enableLocalStream p False (state_of (enableLocalStream p True s)))))
           = Some True"
proof -
  let ?s0 = "emit (PeerBroadcasting p True) (setTracksEnabled i True s)"
  let ?av1 = "av\<lparr>broadcasting := False\<rparr>"
  have ne: "isLocalStreamEnabled p s \<noteq> True" using assms(11) by simp
  from enableLocalStream_change [OF assms(8,9) ne]
  obtain bs where r1: "state_of (enableLocalStream p True s) =
      (disableAvClient True ?s0)\<lparr>talkieButtons := bs\<rparr>" ..
  have pre0: "settingDisableAvClient ?s0" "\<not> settingToggleBroadcast ?s0" "avClient ?s0 = Some av"
    using assms(1,4,5) by (simp_all add: emit_def setTracksEnabled_def)
  note b = disableAvClient_begin [OF pre0 assms(2,3)]
  let ?s1 = "state_of (enableLocalStream p True s)"
  have av1: "avClient ?s1 = Some ?av1"
    by (simp add: r1 b)
  have frame0: "muted ?s0 = muted s" "peers ?s0 = peers s" "localStreams ?s0 = localStreams s"
    by (simp_all add: emit_def setTracksEnabled_def)
  have saved: "savedBroadcasting ?s1 = Some True"
    using assms(6,7) by (simp add: r1 b frame0)
  have pre1: "settingDisableAvClient ?s1" "\<not> settingToggleBroadcast ?s1"
    using pre0 by (simp_all add: r1 b)
  have tab1: "map_of (peers ?s1) p = Some h" "map_of (localStreams ?s1) p = Some i"
    using assms(8,9) by (simp_all add: r1 b frame0)
  have on1: "isLocalStreamEnabled p ?s1 \<noteq> False"
    using enableLocalStream_sets_flag [OF assms(8,9,10), of True] by simp
  let ?s2 = "emit (PeerBroadcasting p False) (setTracksEnabled i False ?s1)"
  from enableLocalStream_change [OF tab1 on1]
  obtain bs' where r2: "state_of (enableLocalStream p False ?s1) =
      (disableAvClient False ?s2)\<lparr>talkieButtons := bs'\<rparr>" ..
  have pre2: "settingDisableAvClient ?s2" "\<not> settingToggleBroadcast ?s2" "avClient ?s2 = Some ?av1"
    using pre1 av1 by (simp_all add: emit_def setTracksEnabled_def)
  have tog: "isVoiceAlways ?av1" "toggle ?av1 = ToggleSets"
    using assms(2,3) by simp_all
  have saved2: "savedBroadcasting ?s2 = Some True"
    using saved by (simp add: emit_def setTracksEnabled_def)
  note e = disableAvClient_end [OF pre2 tog]
  have "map_option broadcasting (avClient (state_of (enableLocalStream p False ?s1))) = Some True"
    by (simp add: r2 e saved2)
  then show ?thesis using av1 by simp
qed

text \<open>Witness for C5: the connected session of \<open>alwaysOnReady\<close>.\<close>

theorem exclusivity_round_trip_witness:
  "avClient alwaysOnReady = Some (alwaysOnClient True) \<and>
   settingDisableAvClient alwaysOnReady \<and>
   \<not> settingToggleBroadcast alwaysOnReady \<and>
   \<not> muted alwaysOnReady \<and>
   map_of (peers alwaysOnReady) (Str ''u3'') = Some 0 \<and>
   map_of (localStreams alwaysOnReady) (Str ''u3'') = Some 0 \<and>
   streams alwaysOnReady 0 = [\<lparr>enabled = False, ended = False\<rparr>] \<and>
   \<not> isLocalStreamEnabled (Str ''u3'') alwaysOnReady \<and>
   map_option broadcasting
     (avClient (state_of (enableLocalStream (Str ''u3'') True alwaysOnReady))) = Some False \<and>
   map_option broadcasting
     (avClient (state_of (enableLocalStream (Str ''u3'') False
        (state_of (enableLocalStream (Str ''u3'') True alwaysOnReady))))) = Some True"
proof -
  have pre: "avClient alwaysOnReady = Some (alwaysOnClient True)"
    "isVoiceAlways (alwaysOnClient True)" "toggle (alwaysOnClient True) = ToggleSets"
    "settingDisableAvClient alwaysOnReady" "\<not> settingToggleBroadcast alwaysOnReady"
    "\<not> muted alwaysOnReady" "broadcasting (alwaysOnClient True)"
    "map_of (peers alwaysOnReady) (Str ''u3'') = Some 0"
    "map_of (localStreams alwaysOnReady) (Str ''u3'') = Some 0"
    by (simp_all add: scenario_defs model_defs)
  have str: "streams alwaysOnReady 0 = [\<lparr>enabled = False, ended = False\<rparr>]"
    by (simp add: scenario_defs model_defs)
  have ne: "streams alwaysOnReady 0 \<noteq> []" by (simp add: str)
  have off: "\<not> isLocalStreamEnabled (Str ''u3'') alwaysOnReady"
    by (simp add: isLocalStreamEnabled_def pre(9) str)
  show ?thesis
    using exclusivity_round_trip [OF pre ne off] pre str off by simp
qed




section \<open>The socket listener\<close>

text \<open>
  Claim C8. A signal, close or broadcast-state message whose addressee is not the
  local user leaves every field of the state as it was, except that the listener's
  first statement appends its debug line to the log.
\<close>

theorem onSocket_other_recipient:
  assumes "req = PeerSignal r d \<or> req = PeerClose r \<or> req = PeerBroadcasting r b"
    and "r \<noteq> me s"
  shows "onSocket req sender s = Done (s\<lparr>logs := logs s @ [(Debug, ''Socket event:'')]\<rparr>)"
  using assms by (auto simp add: onSocket_def logMsg_def Let_def)

text \<open>Witness for C8: a close message for u9 reaches u1 during the call with u3.\<close>

theorem onSocket_other_recipient_witness:
  "(Str ''u9'') \<noteq> me inCall \<and>
   onSocket (PeerClose (Str ''u9'')) (Str ''u3'') inCall =
     Done (inCall\<lparr>logs := logs inCall @ [(Debug, ''Socket event:'')]\<rparr>)"
proof -
  have pre: "(Str ''u9'') \<noteq> me inCall"
    by (simp add: scenario_defs model_defs)
  show ?thesis
    using onSocket_other_recipient [of "PeerClose (Str ''u9'')" "(Str ''u9'')" "[]" False inCall "(Str ''u3'')"] pre
    by simp
qed

text \<open>
  Claim C9, where the code departs from it. The listener runs closePeer with no
  \<open>try\<close> around it: a close message addressed to the local user from a sender with
  no button makes the listener throw, and the sender's session entry and transport
  stay as they were.
\<close>

theorem close_message_without_button_throws:
  assumes "map_of (talkieButtons s) sender = None"
  shows "\<not> returned (onSocket (PeerClose (me s)) sender s) \<and>
         peers (state_of (onSocket (PeerClose (me s)) sender s)) = peers s \<and>
         transports (state_of (onSocket (PeerClose (me s)) sender s)) = transports s"
proof -
  let ?s1 = "logMsg Debug ''Socket event:'' s"
  have b: "map_of (talkieButtons ?s1) sender = None"
    using assms by (simp add: logMsg_def)
  have o: "onSocket (PeerClose (me s)) sender s = closePeer sender ?s1"
    by (simp add: onSocket_def Let_def logMsg_def)
  show ?thesis
    using closePeer_throws [OF b] closePeer_throws_frame(1,2) [OF b]
    by (simp add: o) (simp add: logMsg_def)
qed

text \<open>
  The failing input of C9: u2 has a session but no button (\<open>unlistedCaller\<close>) and
  sends a close message to u1.
\<close>

theorem close_message_without_button_witness:
  "map_of (talkieButtons unlistedCaller) (Str ''u2'') = None \<and>
   me unlistedCaller = (Str ''u1'') \<and>
   returned (onSocket (PeerClose (Str ''u1'')) (Str ''u2'') unlistedCaller) = False \<and>
   peers (state_of (onSocket (PeerClose (Str ''u1'')) (Str ''u2'') unlistedCaller)) = [((Str ''u2''), 0)] \<and>
   destroyed (transports (state_of (onSocket (PeerClose (Str ''u1'')) (Str ''u2'') unlistedCaller)) 0) = False"
proof -
  have pre: "map_of (talkieButtons unlistedCaller) (Str ''u2'') = None"
    "me unlistedCaller = (Str ''u1'')" "peers unlistedCaller = [((Str ''u2''), 0)]"
    "destroyed (transports unlistedCaller 0) = False"
    by (simp_all add: scenario_defs model_defs)
  show ?thesis
    using close_message_without_button_throws [of unlistedCaller "(Str ''u2'')"] pre
    by simp
qed

section \<open>send\<close>

text \<open>
  Claim C10. \<open>send\<close> appends the payload to the data sent over a transport exactly
  when that transport is the one the table holds for the user and it reports
  \<open>connected\<close>; in every other case the whole state is unchanged. The model of
  \<open>send\<close> has no throwing branch.
\<close>

theorem send_transmits_iff_connected:
  "(\<forall>h. sent (transports (send userId d s) h) =
         sent (transports s h) @
           (if map_of (peers s) userId = Some h \<and> connected (transports s h) then [d] else []))
   \<and> (\<not> connectedTo userId s \<longrightarrow> send userId d s = s)"
  by (auto simp add: send_def connectedTo_def onTransport_def split: option.splits)

text \<open>Witness for C10: in \<open>inCall\<close>, u3 is connected and u2 has no session.\<close>

theorem send_transmits_iff_connected_witness:
  "map_of (peers inCall) (Str ''u3'') = Some 0 \<and>
   connected (transports inCall 0) \<and>
   sent (transports inCall 0) = [] \<and>
   sent (transports (send (Str ''u3'') ''hi'' inCall) 0) = [''hi''] \<and>
   \<not> connectedTo (Str ''u2'') inCall \<and>
   send (Str ''u2'') ''hi'' inCall = inCall"
proof -
  have pre: "map_of (peers inCall) (Str ''u3'') = Some 0" "connected (transports inCall 0)"
    "sent (transports inCall 0) = []" "\<not> connectedTo (Str ''u2'') inCall"
    by (simp_all add: scenario_defs model_defs)
  show ?thesis
    using send_transmits_iff_connected [of "(Str ''u3'')" "''hi''" inCall]
      send_transmits_iff_connected [of "(Str ''u2'')" "''hi''" inCall] pre
    by simp
qed

section \<open>closeAllPeers on a device change\<close>

text \<open>One round of the loop for a user who has a button.\<close>

lemma closeStep:
  assumes "map_of (talkieButtons s) u = Some b"
  shows "\<exists>s1. closePeer u (emit (PeerClose u) (logMsg Debug m s)) = Done s1 \<and>
     peers s1 = AList.delete u (peers s) \<and>
     emitted s1 = emitted s @ [PeerClose u] \<and>
     (\<forall>v. (map_of (talkieButtons s1) v = None) = (map_of (talkieButtons s) v = None)) \<and>
     transports s1 =
       (case map_of (peers s) u of
          None \<Rightarrow> transports s
        | Some h \<Rightarrow> (transports s)(h := (transports s h)\<lparr>destroyed := True, connected := False\<rparr>))"
proof -
  let ?s0 = "emit (PeerClose u) (logMsg Debug m s)"
  have b0: "map_of (talkieButtons ?s0) u = Some b"
    using assms by (simp add: emit_def logMsg_def)
  show ?thesis
    unfolding closePeer_returns [OF b0] using assms
    by (simp add: Let_def emit_def logMsg_def destroy_def
        onTransport_def stopTracks_def update_conv' split: option.splits)
qed

lemma closeEach_with_buttons:
  assumes "\<forall>u \<in> set us. map_of (talkieButtons s) u \<noteq> None" and "distinct us"
  shows "\<exists>s'. closeEach us s = Done s' \<and>
     peers s' = filter (\<lambda>e. fst e \<notin> set us) (peers s) \<and>
     emitted s' = emitted s @ map PeerClose (filter (\<lambda>u. map_of (peers s) u \<noteq> None) us) \<and>
     (\<forall>h. destroyed (transports s h) \<longrightarrow> destroyed (transports s' h)) \<and>
     (\<forall>u \<in> set us. \<forall>h. map_of (peers s) u = Some h \<longrightarrow> destroyed (transports s' h))"
  using assms
proof (induction us arbitrary: s)
  case Nil
  then show ?case by simp
next
  case (Cons u rest)
  show ?case
  proof (cases "map_of (peers s) u")
    case None
    then have nk: "u \<notin> fst ` set (peers s)" by (simp add: map_of_eq_None_iff)
    have f: "filter (\<lambda>e. fst e \<notin> set (u # rest)) (peers s) = filter (\<lambda>e. fst e \<notin> set rest) (peers s)"
      using nk by (intro filter_cong) auto
    from Cons.IH [of s] Cons.prems
    obtain s' where s': "closeEach rest s = Done s'"
      "peers s' = filter (\<lambda>e. fst e \<notin> set rest) (peers s)"
      "emitted s' = emitted s @ map PeerClose (filter (\<lambda>u. map_of (peers s) u \<noteq> None) rest)"
      "\<forall>h. destroyed (transports s h) \<longrightarrow> destroyed (transports s' h)"
      "\<forall>u \<in> set rest. \<forall>h. map_of (peers s) u = Some h \<longrightarrow> destroyed (transports s' h)"
      by auto
    show ?thesis
      using None s' f by simp
  next
    case (Some h)
    from Cons.prems obtain b where b: "map_of (talkieButtons s) u = Some b" by auto
    from closeStep [OF b, of "''Closing peer''"]
    obtain s1 where s1: "closePeer u (emit (PeerClose u) (logMsg Debug ''Closing peer'' s)) = Done s1"
      "peers s1 = AList.delete u (peers s)"
      "emitted s1 = emitted s @ [PeerClose u]"
      "\<forall>v. (map_of (talkieButtons s1) v = None) = (map_of (talkieButtons s) v = None)"
      "transports s1 = (transports s)(h := (transports s h)\<lparr>destroyed := True, connected := False\<rparr>)"
      using Some by auto
    have pre1: "\<forall>v \<in> set rest. map_of (talkieButtons s1) v \<noteq> None"
      using Cons.prems(1) s1(4) by simp
    have d1: "distinct rest" using Cons.prems(2) by simp
    have notin: "u \<notin> set rest" using Cons.prems(2) by simp
    from Cons.IH [OF pre1 d1]
    obtain s' where s': "closeEach rest s1 = Done s'"
      "peers s' = filter (\<lambda>e. fst e \<notin> set rest) (peers s1)"
      "emitted s' = emitted s1 @ map PeerClose (filter (\<lambda>u. map_of (peers s1) u \<noteq> None) rest)"
      "\<forall>h. destroyed (transports s1 h) \<longrightarrow> destroyed (transports s' h)"
      "\<forall>u \<in> set rest. \<forall>h. map_of (peers s1) u = Some h \<longrightarrow> destroyed (transports s' h)"
      by auto
    have same: "map_of (peers s1) v = map_of (peers s) v" if "v \<in> set rest" for v
      using that notin by (auto simp add: s1(2) delete_conv')
    have c: "closeEach (u # rest) s = Done s'"
      using Some s1(1) s'(1) by simp
    have p: "peers s' = filter (\<lambda>e. fst e \<notin> set (u # rest)) (peers s)"
      by (auto simp add: s'(2) s1(2) AList.delete_eq intro!: filter_cong)
    have fe: "filter (\<lambda>u. map_of (peers s1) u \<noteq> None) rest = filter (\<lambda>u. map_of (peers s) u \<noteq> None) rest"
      by (intro filter_cong) (simp_all add: same)
    have e: "emitted s' = emitted s @ map PeerClose (filter (\<lambda>u. map_of (peers s) u \<noteq> None) (u # rest))"
      using Some fe by (simp add: s'(3) s1(3))
    have m: "\<forall>k. destroyed (transports s k) \<longrightarrow> destroyed (transports s' k)"
      using s'(4) by (simp add: s1(5))
    have dh: "destroyed (transports s' h)"
      using s'(4) by (simp add: s1(5))
    have dr: "\<forall>v \<in> set rest. \<forall>k. map_of (peers s) v = Some k \<longrightarrow> destroyed (transports s' k)"
      using s'(5) same by simp
    show ?thesis
      using c p e m dh dr Some by auto
  qed
qed

text \<open>
  When every session has a button, closeAllPeers relays one close per session in
  table order, destroys every transport the table held and empties the table.
\<close>

lemma closeAllPeers_with_buttons:
  assumes "\<forall>u \<in> fst ` set (peers s). map_of (talkieButtons s) u \<noteq> None"
    and "distinct (map fst (peers s))"
  shows "\<exists>s'. closeAllPeers s = Done s' \<and> peers s' = [] \<and>
     emitted s' = emitted s @ map PeerClose (map fst (peers s)) \<and>
     (\<forall>e \<in> set (peers s). destroyed (transports s' (snd e)))"
proof -
  have pre: "\<forall>u \<in> set (map fst (peers s)). map_of (talkieButtons s) u \<noteq> None"
    using assms(1) by simp
  from closeEach_with_buttons [OF pre assms(2)]
  obtain s' where s': "closeEach (map fst (peers s)) s = Done s'"
     "peers s' = filter (\<lambda>e. fst e \<notin> set (map fst (peers s))) (peers s)"
     "emitted s' = emitted s @ map PeerClose (filter (\<lambda>u. map_of (peers s) u \<noteq> None) (map fst (peers s)))"
     "\<forall>u \<in> set (map fst (peers s)). \<forall>h. map_of (peers s) u = Some h \<longrightarrow> destroyed (transports s' h)"
    by auto
  have p: "peers s' = []"
    by (simp add: s'(2) filter_empty_conv)
  have "filter (\<lambda>u. map_of (peers s) u \<noteq> None) (map fst (peers s)) = map fst (peers s)"
    by (simp add: filter_id_conv map_of_eq_None_iff)
  then have e: "emitted s' = emitted s @ map PeerClose (map fst (peers s))"
    by (simp add: s'(3))
  have d: "\<forall>e \<in> set (peers s). destroyed (transports s' (snd e))"
  proof
    fix e assume "e \<in> set (peers s)"
    then have "map_of (peers s) (fst e) = Some (snd e)" "fst e \<in> set (map fst (peers s))"
      using assms(2) by auto
    then show "destroyed (transports s' (snd e))" using s'(4) by blast
  qed
  show ?thesis using s'(1) p e d by (simp add: closeAllPeers_def)
qed

text \<open>A change that touches neither audio device key closes nothing.\<close>

lemma onRtcSettingsChanged_other_keys:
  assumes "''client.audioSink'' \<notin> set keys" and "''client.audioSrc'' \<notin> set keys"
  shows "onRtcSettingsChanged keys s = Done s"
  using assms by (auto simp add: onRtcSettingsChanged_def list_ex_iff)

text \<open>
  Claim C7, where the code departs from it. In \<open>twoSessions\<close> the sessions uA (no
  button) and uB are open. A change of \<open>client.audioSrc\<close> relays the close to uA and
  then throws inside closePeer: both sessions stay in the table, uB is never
  notified and its transport is not destroyed.
\<close>

theorem device_change_stops_at_buttonless_session:
  "map fst (peers twoSessions) = [(Str ''uA''), (Str ''uB'')] \<and>
   map fst (talkieButtons twoSessions) = [(Str ''uB'')] \<and>
   returned (onRtcSettingsChanged [''client.audioSrc''] twoSessions) = False \<and>
   peers (state_of (onRtcSettingsChanged [''client.audioSrc''] twoSessions)) =
     peers twoSessions \<and>
   emitted (state_of (onRtcSettingsChanged [''client.audioSrc''] twoSessions)) =
     [PeerClose (Str ''uA'')] \<and>
   destroyed (transports (state_of (onRtcSettingsChanged [''client.audioSrc''] twoSessions)) 0)
     = False \<and>
   destroyed (transports (state_of (onRtcSettingsChanged [''client.audioSrc''] twoSessions)) 1)
     = False"
  by (simp add: scenario_defs model_defs)

end
